theory Spec2Isabelle
  imports Complex_Main
begin

section \<open>Scalars in exact arithmetic\<close>

text \<open>
  The factor is a template over \<^verbatim>\<open>Scalar\<close> (instantiated with double and float).
  The embedding computes in exact real arithmetic. A scalar is \<open>Some x\<close> for the real
  number \<open>x\<close>, and \<open>None\<close> when it is no real number: the quotient of a division by
  zero (where IEEE arithmetic yields an infinity or a NaN) and everything computed
  from it.
\<close>

type_synonym Scalar = "real option"

definition s_neg :: "Scalar \<Rightarrow> Scalar" where
  "s_neg a = (case a of None \<Rightarrow> None | Some x \<Rightarrow> Some (- x))"

definition s_add :: "Scalar \<Rightarrow> Scalar \<Rightarrow> Scalar" where
  "s_add a b =
     (case a of None \<Rightarrow> None
      | Some x \<Rightarrow> (case b of None \<Rightarrow> None | Some y \<Rightarrow> Some (x + y)))"

definition s_mul :: "Scalar \<Rightarrow> Scalar \<Rightarrow> Scalar" where
  "s_mul a b =
     (case a of None \<Rightarrow> None
      | Some x \<Rightarrow> (case b of None \<Rightarrow> None | Some y \<Rightarrow> Some (x * y)))"

definition s_div :: "Scalar \<Rightarrow> Scalar \<Rightarrow> Scalar" where
  "s_div a b =
     (case a of None \<Rightarrow> None
      | Some x \<Rightarrow>
          (case b of None \<Rightarrow> None
           | Some y \<Rightarrow> if y = 0 then None else Some (x / y)))"

section \<open>Output pointers and the memory they point into\<close>

text \<open>
  Each output parameter is a pointer to an \<^verbatim>\<open>Eigen::Matrix<Scalar, 1, 1>\<close>, or
  \<^verbatim>\<open>nullptr\<close>. A 1x1 matrix holds one scalar, its coefficient (0, 0), so the memory
  is a map from addresses to scalars. Two pointers alias when they hold the same address.
\<close>

datatype ptr = nullptr | Ptr nat

type_synonym heap = "nat \<Rightarrow> Scalar"

datatype fault = NullDereference

text \<open>
  The assignment of \<open>v\<close> to the coefficient (0, 0) of the matrix \<open>p\<close> points to:
  dereferencing the null pointer is the fault, any other pointer has its target overwritten.
\<close>

definition assign_deref :: "ptr \<Rightarrow> Scalar \<Rightarrow> heap \<Rightarrow> fault + heap" where
  "assign_deref p v h =
     (case p of nullptr \<Rightarrow> Inl NullDereference | Ptr a \<Rightarrow> Inr (h(a := v)))"

text \<open>Sequencing of statements: a fault ends the run.\<close>

definition and_then :: "fault + heap \<Rightarrow> (heap \<Rightarrow> fault + heap) \<Rightarrow> fault + heap" where
  "and_then r f = (case r of Inl e \<Rightarrow> Inl e | Inr h \<Rightarrow> f h)"

text \<open>A memory none of whose cells holds a number yet.\<close>

definition heap0 :: heap where
  "heap0 = (\<lambda>a. None)"

section \<open>The generated factor \<^verbatim>\<open>LandmarkPriorFactor\<close>\<close>

text \<open>
  \<^verbatim>\<open>landmark_prior_factor.h\<close>: four intermediate terms, then one guarded write per
  output, in the order res, jacobian, hessian, rhs. The source's \<^verbatim>\<open>_tmp0\<close> ...
  \<^verbatim>\<open>_tmp3\<close> are \<open>tmp0\<close> ... \<open>tmp3\<close> here.
\<close>

definition LandmarkPriorFactor ::
  "Scalar \<Rightarrow> Scalar \<Rightarrow> Scalar \<Rightarrow> Scalar \<Rightarrow> Scalar \<Rightarrow>
   ptr \<Rightarrow> ptr \<Rightarrow> ptr \<Rightarrow> ptr \<Rightarrow> heap \<Rightarrow> fault + heap" where
  "LandmarkPriorFactor landmark inverse_range_prior weight sigma epsilon
       res jacobian hessian rhs h0 =
     (let tmp0 = s_add (s_neg inverse_range_prior) landmark;
          tmp1 = s_add epsilon sigma;
          tmp2 = s_div weight tmp1;
          tmp3 = s_div (s_mul weight weight) (s_mul tmp1 tmp1)
      in
        and_then
          (and_then
            (and_then
              (if res \<noteq> nullptr then assign_deref res (s_mul tmp0 tmp2) h0 else Inr h0)
              (\<lambda>h1. if jacobian \<noteq> nullptr then assign_deref jacobian tmp2 h1 else Inr h1))
            (\<lambda>h2. if hessian \<noteq> nullptr then assign_deref hessian tmp3 h2 else Inr h2))
          (\<lambda>h3. if rhs \<noteq> nullptr then assign_deref rhs (s_mul tmp0 tmp3) h3 else Inr h3))"

section \<open>The arithmetic of \<^verbatim>\<open>double\<close>\<close>

text \<open>
  The factor is instantiated with \<^verbatim>\<open>Scalar = double\<close>: IEEE 754 binary64, every
  operation rounded to nearest, ties to even. A value is a NaN, an infinity with its sign
  (\<open>True\<close> for minus), or a finite number with its sign and its magnitude (a real number
  that is not negative); the two zeros are \<open>Finite False 0\<close> and \<open>Finite True 0\<close>.
\<close>

datatype double = NaN | Infinity bool | Finite bool real

text \<open>Rounding to the nearest integer, a tie to the even one.\<close>

definition rne :: "real \<Rightarrow> int" where
  "rne q =
     (let f = \<lfloor>q\<rfloor>; d = q - of_int f
      in if d < 1/2 then f else if 1/2 < d then f + 1 else if even f then f else f + 1)"

text \<open>
  The exponent of a positive magnitude \<open>m\<close>: the largest \<open>e\<close> from -1022 to 1023 with
  \<open>2 powi e \<le> m\<close>, and -1022 (the exponent of the subnormal numbers) when there is none.
  It is found by climbing from -1022.
\<close>

function climb :: "real \<Rightarrow> int \<Rightarrow> int" where
  "climb m e = (if e < 1023 \<and> 2 powi (e + 1) \<le> m then climb m (e + 1) else e)"
  by pat_completeness auto
termination
  by (relation "measure (\<lambda>(m, e). nat (1023 - e))") auto

declare climb.simps [simp del]

definition binade :: "real \<Rightarrow> int" where
  "binade m = climb m (- 1022)"

text \<open>
  The binary64 number nearest to the magnitude \<open>x\<close>, with sign \<open>s\<close>: 53 significant bits
  at the exponent of \<open>x\<close>, so numbers are spaced \<open>2 powi (binade x - 52)\<close> apart around
  \<open>x\<close> (\<open>2 powi (- 1074)\<close> for the subnormal numbers). A magnitude that rounds to
  \<open>2 powi 1024\<close> or more overflows to an infinity; one below half the smallest subnormal
  number underflows to a zero.
\<close>

definition round64 :: "bool \<Rightarrow> real \<Rightarrow> double" where
  "round64 s x =
     (if x = 0 then Finite s 0
      else
        let u = 2 powi (binade x - 52);
            r = of_int (rne (x / u)) * u
        in if 2 powi 1024 \<le> r then Infinity s else Finite s r)"

text \<open>
  The operations the factor uses. A finite result is the exact result, rounded; the other
  cases are those of IEEE 754 (a finite non-zero number divided by a zero is an infinity,
  zero by zero and infinity times zero are NaN, an exact zero sum is \<open>+0\<close> unless both
  summands are negative).
\<close>

fun d_neg :: "double \<Rightarrow> double" where
  "d_neg NaN = NaN"
| "d_neg (Infinity s) = Infinity (\<not> s)"
| "d_neg (Finite s a) = Finite (\<not> s) a"

fun d_add :: "double \<Rightarrow> double \<Rightarrow> double" where
  "d_add NaN y = NaN"
| "d_add x NaN = NaN"
| "d_add (Infinity s) (Infinity t) = (if s = t then Infinity s else NaN)"
| "d_add (Infinity s) (Finite t b) = Infinity s"
| "d_add (Finite s a) (Infinity t) = Infinity t"
| "d_add (Finite s a) (Finite t b) =
     (let x = (if s then - a else a) + (if t then - b else b)
      in if x = 0 then Finite (s \<and> t) 0 else round64 (x < 0) \<bar>x\<bar>)"

fun d_mul :: "double \<Rightarrow> double \<Rightarrow> double" where
  "d_mul NaN y = NaN"
| "d_mul x NaN = NaN"
| "d_mul (Infinity s) (Infinity t) = Infinity (s \<noteq> t)"
| "d_mul (Infinity s) (Finite t b) = (if b = 0 then NaN else Infinity (s \<noteq> t))"
| "d_mul (Finite s a) (Infinity t) = (if a = 0 then NaN else Infinity (s \<noteq> t))"
| "d_mul (Finite s a) (Finite t b) = round64 (s \<noteq> t) (a * b)"

fun d_div :: "double \<Rightarrow> double \<Rightarrow> double" where
  "d_div NaN y = NaN"
| "d_div x NaN = NaN"
| "d_div (Infinity s) (Infinity t) = NaN"
| "d_div (Infinity s) (Finite t b) = Infinity (s \<noteq> t)"
| "d_div (Finite s a) (Infinity t) = Finite (s \<noteq> t) 0"
| "d_div (Finite s a) (Finite t b) =
     (if b = 0 then (if a = 0 then NaN else Infinity (s \<noteq> t))
      else round64 (s \<noteq> t) (a / b))"

fun d_zero :: "double \<Rightarrow> bool" where
  "d_zero (Finite s a) = (a = 0)"
| "d_zero x = False"

section \<open>\<^verbatim>\<open>LandmarkPriorFactor\<close> as a template over \<^verbatim>\<open>Scalar\<close>\<close>

text \<open>
  \<^verbatim>\<open>template <typename Scalar>\<close>: the arithmetic of \<^verbatim>\<open>Scalar\<close> the body uses, unary
  minus, \<open>+\<close>, \<open>*\<close> and \<open>/\<close>, and the test whether a scalar is a zero.
\<close>

record 'a scalar_ops =
  neg_op :: "'a \<Rightarrow> 'a"
  add_op :: "'a \<Rightarrow> 'a \<Rightarrow> 'a"
  mul_op :: "'a \<Rightarrow> 'a \<Rightarrow> 'a"
  div_op :: "'a \<Rightarrow> 'a \<Rightarrow> 'a"
  zero_op :: "'a \<Rightarrow> bool"

text \<open>The exact arithmetic of the first section, and the arithmetic of \<^verbatim>\<open>double\<close>.\<close>

definition exact_ops :: "Scalar scalar_ops" where
  "exact_ops = \<lparr>neg_op = s_neg, add_op = s_add, mul_op = s_mul, div_op = s_div,
     zero_op = (\<lambda>b. b = Some 0)\<rparr>"

definition double_ops :: "double scalar_ops" where
  "double_ops = \<lparr>neg_op = d_neg, add_op = d_add, mul_op = d_mul, div_op = d_div,
     zero_op = d_zero\<rparr>"

text \<open>
  A division, together with the record of whether its denominator was a zero. The record
  is not part of the source: it is kept so that a division by zero can be told from an
  overflow, which yields an infinity too.
\<close>

definition divide_T :: "'a scalar_ops \<Rightarrow> 'a \<Rightarrow> 'a \<Rightarrow> 'a \<times> bool" where
  "divide_T ops a b = (div_op ops a b, zero_op ops b)"

text \<open>The assignment through an output pointer and the sequencing, for any scalar type.\<close>

definition assign_deref_T :: "ptr \<Rightarrow> 'a \<Rightarrow> (nat \<Rightarrow> 'a) \<Rightarrow> fault + (nat \<Rightarrow> 'a)" where
  "assign_deref_T p v h =
     (case p of nullptr \<Rightarrow> Inl NullDereference | Ptr a \<Rightarrow> Inr (h(a := v)))"

definition and_then_T ::
  "fault + (nat \<Rightarrow> 'a) \<Rightarrow> ((nat \<Rightarrow> 'a) \<Rightarrow> fault + (nat \<Rightarrow> 'a)) \<Rightarrow> fault + (nat \<Rightarrow> 'a)" where
  "and_then_T r f = (case r of Inl e \<Rightarrow> Inl e | Inr h \<Rightarrow> f h)"

text \<open>
  The body of \<^verbatim>\<open>landmark_prior_factor.h\<close> once more, over the arithmetic \<open>ops\<close>. It
  returns the memory (or the fault) and whether one of its two divisions had a zero
  denominator.
\<close>

definition LandmarkPriorFactor_T ::
  "'a scalar_ops \<Rightarrow> 'a \<Rightarrow> 'a \<Rightarrow> 'a \<Rightarrow> 'a \<Rightarrow> 'a \<Rightarrow>
   ptr \<Rightarrow> ptr \<Rightarrow> ptr \<Rightarrow> ptr \<Rightarrow> (nat \<Rightarrow> 'a) \<Rightarrow> (fault + (nat \<Rightarrow> 'a)) \<times> bool" where
  "LandmarkPriorFactor_T ops landmark inverse_range_prior weight sigma epsilon
       res jacobian hessian rhs h0 =
     (let tmp0 = add_op ops (neg_op ops inverse_range_prior) landmark;
          tmp1 = add_op ops epsilon sigma;
          (tmp2, z2) = divide_T ops weight tmp1;
          (tmp3, z3) = divide_T ops (mul_op ops weight weight) (mul_op ops tmp1 tmp1)
      in
        (and_then_T
          (and_then_T
            (and_then_T
              (if res \<noteq> nullptr then assign_deref_T res (mul_op ops tmp0 tmp2) h0
               else Inr h0)
              (\<lambda>h1. if jacobian \<noteq> nullptr then assign_deref_T jacobian tmp2 h1 else Inr h1))
            (\<lambda>h2. if hessian \<noteq> nullptr then assign_deref_T hessian tmp3 h2 else Inr h2))
          (\<lambda>h3. if rhs \<noteq> nullptr then assign_deref_T rhs (mul_op ops tmp0 tmp3) h3
                else Inr h3),
         z2 \<or> z3))"

text \<open>A memory all of whose cells hold the same value.\<close>

definition all_cells :: "'a \<Rightarrow> nat \<Rightarrow> 'a" where
  "all_cells v = (\<lambda>a. v)"

section \<open>The optimizer facade: \<^verbatim>\<open>Optimize\<close>\<close>

text \<open>
  \<^verbatim>\<open>optimizer.h\<close> declares \<^verbatim>\<open>Optimizer::Optimize\<close> and
  \<^verbatim>\<open>Optimizer::IterateToConvergence\<close>; their bodies (\<^verbatim>\<open>optimizer.tcc\<close>) and the
  nonlinear solver, a template parameter of the class, are not part of the code this theory
  is written from. The definitions of this section follow the header's comments and the
  specification.
\<close>

text \<open>
  Modelled from the spec: the states of the Levenberg-Marquardt driver (the solver's header
  is missing), "INIT, ITERATING, then one of CONVERGED, MAX_ITERATIONS, DIVERGED,
  NUMERICAL_FAILURE".
\<close>

datatype lm_state =
  INIT | ITERATING | CONVERGED | MAX_ITERATIONS | DIVERGED | NUMERICAL_FAILURE

text \<open>
  Modelled from the spec: the body of \<^verbatim>\<open>IterateToConvergence\<close> is missing. The header
  says it calls the solver's \<^verbatim>\<open>Iterate\<close> on the values "until out of iterations or
  converged". One iteration is the parameter \<open>Iterate\<close>: from the solver's state (the
  values and the damping) it gives the next state and the state of the driver, ITERATING to
  go on. A run that uses up its iterations exits in MAX_ITERATIONS.
\<close>

fun IterateToConvergence ::
  "('s \<Rightarrow> 's \<times> lm_state) \<Rightarrow> 's \<Rightarrow> nat \<Rightarrow> 's \<times> lm_state" where
  "IterateToConvergence Iterate s 0 = (s, MAX_ITERATIONS)"
| "IterateToConvergence Iterate s (Suc n) =
     (case Iterate s of
        (s', st) \<Rightarrow> if st = ITERATING then IterateToConvergence Iterate s' n else (s', st))"

text \<open>
  Modelled from the spec: the body of \<^verbatim>\<open>Optimize\<close> and the type of the stats are
  missing. What a call leaves: the values written back in place ("writes the best-seen
  values back in place"), the exit status recorded in the stats ("exit status code"), and
  the boolean it returns.
\<close>

record 's optimize_result =
  values_out :: 's
  exit_status :: lm_state
  returned :: bool

text \<open>
  Modelled from the spec: the body of \<^verbatim>\<open>Optimize\<close> is missing. A negative
  \<^verbatim>\<open>num_iterations\<close> (the default, -1) stands for the iterations of the params given at
  construction (header); the driver runs, the values are written back, and the call
  "returns true iff exited in CONVERGED state". The output parameter
  \<^verbatim>\<open>best_linearization\<close> has no part in the returned boolean and is left out.
\<close>

definition Optimize ::
  "nat \<Rightarrow> ('s \<Rightarrow> 's \<times> lm_state) \<Rightarrow> 's \<Rightarrow> int \<Rightarrow> 's optimize_result" where
  "Optimize params_iterations Iterate values num_iterations =
     (let n = (if num_iterations < 0 then params_iterations else nat num_iterations);
          (values', status) = IterateToConvergence Iterate values n
      in \<lparr>values_out = values', exit_status = status, returned = (status = CONVERGED)\<rparr>)"

section \<open>The optimizer facade: \<^verbatim>\<open>ComputeCovariances\<close>\<close>

text \<open>
  \<^verbatim>\<open>optimizer.h\<close> declares \<^verbatim>\<open>Optimizer::ComputeCovariances\<close> and documents its
  precondition; its body (\<^verbatim>\<open>optimizer.tcc\<close>) is not part of the code this theory is
  written from. The definitions of this section follow the header's comment and the
  specification.
\<close>

text \<open>
  Modelled from the spec: the matrix types (\<^verbatim>\<open>MatrixX\<close>, the sparse Hessian of the
  linearization) are missing. A matrix is dense here, a list of rows of real numbers, and
  the operations on matrices below (a matrix from its coefficients, a block, the transpose,
  the product, the difference) are given the dimensions of their result, so that a block
  with no rows or no columns keeps its shape.
\<close>

type_synonym matrix = "real list list"

text \<open>The matrix with \<open>nr\<close> rows and \<open>nc\<close> columns whose coefficient (i, j) is \<open>f i j\<close>.\<close>

definition entries :: "nat \<Rightarrow> nat \<Rightarrow> (nat \<Rightarrow> nat \<Rightarrow> real) \<Rightarrow> matrix" where
  "entries nr nc f = map (\<lambda>i. map (\<lambda>j. f i j) [0..<nc]) [0..<nr]"

text \<open>The block of \<open>nr\<close> rows and \<open>nc\<close> columns of \<open>M\<close> that starts at row \<open>r\<close>, column \<open>c\<close>.\<close>

definition block :: "matrix \<Rightarrow> nat \<Rightarrow> nat \<Rightarrow> nat \<Rightarrow> nat \<Rightarrow> matrix" where
  "block M r c nr nc = entries nr nc (\<lambda>i j. M ! (r + i) ! (c + j))"

definition mat_transpose :: "nat \<Rightarrow> nat \<Rightarrow> matrix \<Rightarrow> matrix" where
  "mat_transpose nr nc A = entries nc nr (\<lambda>i j. A ! j ! i)"

definition mat_mul :: "nat \<Rightarrow> nat \<Rightarrow> nat \<Rightarrow> matrix \<Rightarrow> matrix \<Rightarrow> matrix" where
  "mat_mul nr ni nc A B = entries nr nc (\<lambda>i j. \<Sum>k\<leftarrow>[0..<ni]. A ! i ! k * B ! k ! j)"

definition mat_sub :: "nat \<Rightarrow> nat \<Rightarrow> matrix \<Rightarrow> matrix \<Rightarrow> matrix" where
  "mat_sub nr nc A B = entries nr nc (\<lambda>i j. A ! i ! j - B ! i ! j)"

definition remove_nth :: "nat \<Rightarrow> 'a list \<Rightarrow> 'a list" where
  "remove_nth j xs = take j xs @ drop (Suc j) xs"

text \<open>
  Modelled from the spec: the linear solver is an external collaborator of the optimizer
  and is missing; "invert" is the inverse of a matrix, here by the determinant (expanded
  along the first row) and the cofactors. A matrix that is not square or whose determinant
  is zero has no inverse.
\<close>

function det :: "matrix \<Rightarrow> real" where
  "det [] = 1"
| "det (r # rs) =
     (\<Sum>j\<leftarrow>[0..<length r]. (- 1) ^ j * r ! j * det (map (remove_nth j) rs))"
  by pat_completeness auto
termination
  by (relation "measure length") auto

text \<open>
  Modelled from the spec: the inverse the missing solver computes, the transposed matrix of
  cofactors over the determinant.
\<close>

definition mat_inverse :: "matrix \<Rightarrow> matrix option" where
  "mat_inverse M =
     (let n = length M in
      if (\<exists>row \<in> set M. length row \<noteq> n) \<or> det M = 0 then None
      else Some (entries n n
        (\<lambda>i j. (- 1) ^ (i + j) * det (map (remove_nth i) (remove_nth j M)) / det M)))"

text \<open>
  Modelled from the spec: the type \<^verbatim>\<open>Key\<close> is missing; "a letter tag, a non-negative
  integer subscript, and an optional super-index".
\<close>

datatype Key = Key char nat "nat option"

text \<open>
  Modelled from the spec: the type of the index (\<^verbatim>\<open>index_t\<close>) is missing; "an ordered
  list of (key, storage offset, storage dim, tangent offset, tangent dim)".
\<close>

record index_entry =
  key :: Key
  storage_offset :: nat
  storage_dim :: nat
  tangent_offset :: nat
  tangent_dim :: nat

text \<open>
  Modelled from the spec: the body of \<^verbatim>\<open>ComputeCovariances\<close> is missing; the two ways
  a call can fail, the precondition on the keys broken ("must be a prefix") and a matrix
  that cannot be inverted ("report factorization failure").
\<close>

datatype covariance_error = KeysNotPrefix | NotInvertible

text \<open>
  Modelled from the spec: the body of \<^verbatim>\<open>ComputeCovariances\<close> is missing; with the
  Hessian partitioned as H = [B E; E^T C], B the block of the requested keys, the Schur
  complement is "S = B - E C^{-1} E^T".
\<close>

definition schur_complement :: "matrix \<Rightarrow> nat \<Rightarrow> nat \<Rightarrow> matrix \<Rightarrow> matrix" where
  "schur_complement H block_dim rest_dim C_inv =
     (let B = block H 0 0 block_dim block_dim;
          E = block H 0 block_dim block_dim rest_dim
      in mat_sub block_dim block_dim B
           (mat_mul block_dim rest_dim block_dim
              (mat_mul block_dim rest_dim rest_dim E C_inv)
              (mat_transpose block_dim rest_dim E)))"

text \<open>
  Modelled from the spec: the body of \<^verbatim>\<open>ComputeCovariances\<close> is missing; the block of a
  key on the diagonal of the covariance, "extract per-key blocks".
\<close>

definition key_block :: "matrix \<Rightarrow> index_entry \<Rightarrow> matrix" where
  "key_block covariance e =
     block covariance (tangent_offset e) (tangent_offset e) (tangent_dim e) (tangent_dim e)"

text \<open>
  Modelled from the spec: the body of \<^verbatim>\<open>ComputeCovariances\<close> is missing. "keys_subset must
  be a prefix of the full ordered key list" (a call that breaks this is refused here);
  "partition H", "invert S, extract per-key blocks into out", reusing the entries of
  \<^verbatim>\<open>covariances_by_key\<close>. Whether C is block diagonal only changes how its inverse is
  computed, not the Schur complement.
\<close>

definition ComputeCovariances ::
  "index_entry list \<Rightarrow> matrix \<Rightarrow> Key list \<Rightarrow> (Key \<rightharpoonup> matrix) \<Rightarrow>
   covariance_error + (Key \<rightharpoonup> matrix)" where
  "ComputeCovariances index H keys covariances_by_key =
     (if take (length keys) (map key index) \<noteq> keys then Inl KeysNotPrefix
      else
        let requested = take (length keys) index;
            block_dim = sum_list (map tangent_dim requested);
            rest_dim = length H - block_dim
        in case mat_inverse (block H block_dim block_dim rest_dim rest_dim) of
             None \<Rightarrow> Inl NotInvertible
           | Some C_inv \<Rightarrow>
               (case mat_inverse (schur_complement H block_dim rest_dim C_inv) of
                  None \<Rightarrow> Inl NotInvertible
                | Some covariance \<Rightarrow>
                    Inr (fold (\<lambda>e out. out(key e \<mapsto> key_block covariance e))
                           requested covariances_by_key)))"

section \<open>What a call leaves in memory\<close>

text \<open>
  The memory after a call, cell by cell: a later write wins where outputs alias, and a
  cell no output points to keeps its content.
\<close>

lemma LandmarkPriorFactor_heap:
  "LandmarkPriorFactor landmark inverse_range_prior weight sigma epsilon
       res jacobian hessian rhs h0 =
     Inr (\<lambda>a.
       if rhs = Ptr a then
         s_mul (s_add (s_neg inverse_range_prior) landmark)
           (s_div (s_mul weight weight)
              (s_mul (s_add epsilon sigma) (s_add epsilon sigma)))
       else if hessian = Ptr a then
         s_div (s_mul weight weight) (s_mul (s_add epsilon sigma) (s_add epsilon sigma))
       else if jacobian = Ptr a then s_div weight (s_add epsilon sigma)
       else if res = Ptr a then
         s_mul (s_add (s_neg inverse_range_prior) landmark)
           (s_div weight (s_add epsilon sigma))
       else h0 a)"
  by (cases res; cases jacobian; cases hessian; cases rhs)
     (auto simp add: LandmarkPriorFactor_def Let_def and_then_def assign_deref_def
        fun_eq_iff)

lemmas s_defs = s_neg_def s_add_def s_mul_def s_div_def

section \<open>The residual of the prior factor\<close>

text \<open>
  C1, as stated, fails. The claim gives the residual as w (x - mu) / sigma. At the first
  iterate of the single linear prior problem (x = 0, mu = 3, w = 2, sigma = 1/2,
  epsilon = 1e-9) the call does not fault, the residual written is
  -6 / (1/2 + 1e-9) = -6000000000 / 500000001, and w (x - mu) / sigma = -12 is another
  number: the code divides by sigma + epsilon.
\<close>

theorem LandmarkPriorFactor_residual_counterexample:
  "\<not> isl (LandmarkPriorFactor (Some 0) (Some 3) (Some 2) (Some (1/2)) (Some (1/10^9))
            (Ptr 0) nullptr nullptr nullptr heap0)
   \<and> projr (LandmarkPriorFactor (Some 0) (Some 3) (Some 2) (Some (1/2)) (Some (1/10^9))
            (Ptr 0) nullptr nullptr nullptr heap0) 0 = Some (- 6000000000 / 500000001)
   \<and> projr (LandmarkPriorFactor (Some 0) (Some 3) (Some 2) (Some (1/2)) (Some (1/10^9))
            (Ptr 0) nullptr nullptr nullptr heap0) 0 \<noteq> Some (2 * (0 - 3) / (1/2))"
  by (simp add: LandmarkPriorFactor_heap s_defs)

text \<open>
  C1, amended: whenever sigma + epsilon is not zero, the residual written through a
  non-null \<open>res\<close> (that no later output aliases) is w (x - mu) / (sigma + epsilon). It is
  the claim's w (x - mu) / sigma when epsilon = 0, and it is exactly 0 at x = mu, where the
  error, half the squared residual, is 0 too.
\<close>

theorem LandmarkPriorFactor_residual:
  assumes "sigma + epsilon \<noteq> 0"
    and "jacobian \<noteq> Ptr a" and "hessian \<noteq> Ptr a" and "rhs \<noteq> Ptr a"
  shows "\<exists>h'. LandmarkPriorFactor (Some x) (Some mu) (Some w) (Some sigma) (Some epsilon)
            (Ptr a) jacobian hessian rhs h = Inr h'
     \<and> h' a = Some (w * (x - mu) / (sigma + epsilon))
     \<and> (epsilon = 0 \<longrightarrow> h' a = Some (w * (x - mu) / sigma))
     \<and> (x = mu \<longrightarrow> h' a = Some 0
           \<and> s_mul (Some (1/2)) (s_mul (h' a) (h' a)) = Some 0)"
  using assms by (simp add: LandmarkPriorFactor_heap s_defs add.commute)

text \<open>
  C1, witness: the optimum of the single linear prior problem, x = mu = 3 with w = 2,
  sigma = 1/2, epsilon = 1e-9. The residual is 0 and so is the error.
\<close>

theorem LandmarkPriorFactor_residual_witness:
  "(1/2 :: real) + 1/10^9 \<noteq> 0 \<and> nullptr \<noteq> Ptr 0
   \<and> (\<exists>h'. LandmarkPriorFactor (Some 3) (Some 3) (Some 2) (Some (1/2)) (Some (1/10^9))
            (Ptr 0) nullptr nullptr nullptr heap0 = Inr h'
     \<and> h' 0 = Some 0
     \<and> s_mul (Some (1/2)) (s_mul (h' 0) (h' 0)) = Some 0)"
  using LandmarkPriorFactor_residual [where sigma = "1/2" and epsilon = "1/10^9" and x = 3
      and mu = 3 and w = 2 and a = 0 and jacobian = nullptr and hessian = nullptr
      and rhs = nullptr and h = heap0]
  by auto

section \<open>The normal equations of the prior factor\<close>

text \<open>
  C2: for every input, with the four outputs written to four cells, the hessian written is
  the jacobian times itself and the rhs written is the jacobian times the residual. Where
  sigma + epsilon is zero all four are undefined; elsewhere all four are real numbers
  r, j, j * j and j * r.
\<close>

theorem LandmarkPriorFactor_normal_equations:
  assumes "distinct [a_res, a_jac, a_hes, a_rhs]"
  shows "\<exists>h'. LandmarkPriorFactor (Some x) (Some mu) (Some w) (Some sigma) (Some epsilon)
            (Ptr a_res) (Ptr a_jac) (Ptr a_hes) (Ptr a_rhs) h = Inr h'
     \<and> h' a_hes = s_mul (h' a_jac) (h' a_jac)
     \<and> h' a_rhs = s_mul (h' a_jac) (h' a_res)
     \<and> (sigma + epsilon \<noteq> 0 \<longrightarrow>
          (\<exists>r j. h' a_res = Some r \<and> h' a_jac = Some j
             \<and> h' a_hes = Some (j * j) \<and> h' a_rhs = Some (j * r)))"
  using assms by (auto simp add: LandmarkPriorFactor_heap s_defs add.commute)

text \<open>
  C2, witness: x = 0, mu = 3, w = 2, sigma = 1/2, epsilon = 1e-9, outputs at the
  addresses 0, 1, 2, 3.
\<close>

theorem LandmarkPriorFactor_normal_equations_witness:
  "distinct [0, 1, 2, 3 :: nat] \<and> (1/2 :: real) + 1/10^9 \<noteq> 0
   \<and> (\<exists>h'. LandmarkPriorFactor (Some 0) (Some 3) (Some 2) (Some (1/2)) (Some (1/10^9))
            (Ptr 0) (Ptr 1) (Ptr 2) (Ptr 3) heap0 = Inr h'
     \<and> h' 2 = s_mul (h' 1) (h' 1)
     \<and> h' 3 = s_mul (h' 1) (h' 0)
     \<and> (\<exists>r j. h' 0 = Some r \<and> h' 1 = Some j
             \<and> h' 2 = Some (j * j) \<and> h' 3 = Some (j * r)))"
  using LandmarkPriorFactor_normal_equations [where a_res = 0 and a_jac = 1 and a_hes = 2
      and a_rhs = 3 and x = 0 and mu = 3 and w = 2 and sigma = "1/2" and epsilon = "1/10^9"
      and h = heap0]
  by auto

section \<open>Null and non-null output pointers\<close>

text \<open>
  C3: for every input, every memory and every combination of null and non-null output
  pointers, the call ends without a fault (no null pointer is dereferenced). A cell that
  no output pointer points to keeps its content; the target of a non-null pointer holds
  that output's value, the later output's where two outputs alias.
\<close>

theorem LandmarkPriorFactor_null_safe:
  "\<exists>h'. LandmarkPriorFactor landmark inverse_range_prior weight sigma epsilon
            res jacobian hessian rhs h = Inr h'
     \<and> (\<forall>a. res \<noteq> Ptr a \<and> jacobian \<noteq> Ptr a \<and> hessian \<noteq> Ptr a \<and> rhs \<noteq> Ptr a
            \<longrightarrow> h' a = h a)
     \<and> (\<forall>a. rhs = Ptr a \<longrightarrow>
            h' a = s_mul (s_add (s_neg inverse_range_prior) landmark)
                     (s_div (s_mul weight weight)
                        (s_mul (s_add epsilon sigma) (s_add epsilon sigma))))
     \<and> (\<forall>a. hessian = Ptr a \<and> rhs \<noteq> Ptr a \<longrightarrow>
            h' a = s_div (s_mul weight weight)
                     (s_mul (s_add epsilon sigma) (s_add epsilon sigma)))
     \<and> (\<forall>a. jacobian = Ptr a \<and> hessian \<noteq> Ptr a \<and> rhs \<noteq> Ptr a \<longrightarrow>
            h' a = s_div weight (s_add epsilon sigma))
     \<and> (\<forall>a. res = Ptr a \<and> jacobian \<noteq> Ptr a \<and> hessian \<noteq> Ptr a \<and> rhs \<noteq> Ptr a \<longrightarrow>
            h' a = s_mul (s_add (s_neg inverse_range_prior) landmark)
                     (s_div weight (s_add epsilon sigma)))"
  by (simp add: LandmarkPriorFactor_heap)

text \<open>
  C3, witness: res and hessian requested (addresses 0 and 1), jacobian and rhs null, in a
  memory whose cell 2 holds 7. The two outputs are written, cell 2 still holds 7 and cell 3
  still holds no number.
\<close>

theorem LandmarkPriorFactor_null_safe_witness:
  "\<exists>h'. LandmarkPriorFactor (Some 0) (Some 3) (Some 2) (Some (1/2)) (Some (1/10^9))
            (Ptr 0) nullptr (Ptr 1) nullptr (heap0(2 := Some 7)) = Inr h'
     \<and> h' 0 = Some (- 6000000000 / 500000001)
     \<and> h' 1 = Some (4000000000000000000 / 250000001000000001)
     \<and> h' 2 = Some 7
     \<and> h' 3 = None"
  using LandmarkPriorFactor_null_safe [of "Some 0" "Some 3" "Some 2" "Some (1/2)"
      "Some (1/10^9)" "Ptr 0" nullptr "Ptr 1" nullptr "heap0(2 := Some 7)"]
  by (auto simp add: s_defs heap0_def)

section \<open>The covariance of the single linear prior\<close>

text \<open>
  C4, as stated, fails. The claim gives the covariance of the single linear prior problem
  (w = 2, sigma = 1/2, and the scenario's epsilon = 1e-9) as (sigma / w)^2 = 0.0625. At
  the optimum x = mu = 3 the call does not fault, the inverse of the hessian written is
  250000001000000001 / 4000000000000000000, and that is not ((1/2) / 2)^2.
\<close>

theorem LandmarkPriorFactor_covariance_counterexample:
  "\<not> isl (LandmarkPriorFactor (Some 3) (Some 3) (Some 2) (Some (1/2)) (Some (1/10^9))
            nullptr nullptr (Ptr 0) nullptr heap0)
   \<and> s_div (Some 1)
        (projr (LandmarkPriorFactor (Some 3) (Some 3) (Some 2) (Some (1/2)) (Some (1/10^9))
            nullptr nullptr (Ptr 0) nullptr heap0) 0)
      = Some (250000001000000001 / 4000000000000000000)
   \<and> s_div (Some 1)
        (projr (LandmarkPriorFactor (Some 3) (Some 3) (Some 2) (Some (1/2)) (Some (1/10^9))
            nullptr nullptr (Ptr 0) nullptr heap0) 0)
      \<noteq> Some (((1/2) / 2)^2)"
  by (simp add: LandmarkPriorFactor_heap s_defs power2_eq_square)

text \<open>
  C4, amended: whenever sigma + epsilon and the weight are not zero, the hessian written
  is (w / (sigma + epsilon))^2 and its inverse is ((sigma + epsilon) / w)^2. That inverse
  differs from (sigma / w)^2 by epsilon (2 sigma + epsilon) / w^2, and is (sigma / w)^2
  when epsilon = 0.
\<close>

theorem LandmarkPriorFactor_covariance:
  assumes "sigma + epsilon \<noteq> 0" and "w \<noteq> 0" and "rhs \<noteq> Ptr a"
  shows "\<exists>h'. LandmarkPriorFactor (Some x) (Some mu) (Some w) (Some sigma) (Some epsilon)
            res jacobian (Ptr a) rhs h = Inr h'
     \<and> h' a = Some ((w / (sigma + epsilon))^2)
     \<and> s_div (Some 1) (h' a) = Some (((sigma + epsilon) / w)^2)
     \<and> ((sigma + epsilon) / w)^2 - (sigma / w)^2 = epsilon * (2 * sigma + epsilon) / w^2
     \<and> (epsilon = 0 \<longrightarrow> s_div (Some 1) (h' a) = Some ((sigma / w)^2))"
proof -
  let ?d = "sigma + epsilon"
  have d2: "?d * ?d \<noteq> 0"
    using assms by simp
  have call: "LandmarkPriorFactor (Some x) (Some mu) (Some w) (Some sigma) (Some epsilon)
      res jacobian (Ptr a) rhs h =
      Inr (\<lambda>b. if rhs = Ptr b then Some ((- mu + x) * (w * w / (?d * ?d)))
        else if b = a then Some (w * w / (?d * ?d))
        else if jacobian = Ptr b then Some (w / ?d)
        else if res = Ptr b then Some ((- mu + x) * (w / ?d)) else h b)"
    using assms(1) d2
    by (auto simp add: LandmarkPriorFactor_heap s_defs add.commute fun_eq_iff)
  have hes: "w * w / (?d * ?d) = (w / ?d)\<^sup>2"
    by (simp add: power2_eq_square)
  have inv: "1 / (w / ?d)\<^sup>2 = (?d / w)\<^sup>2"
    by (simp add: power2_eq_square)
  have nz: "(w / ?d)\<^sup>2 \<noteq> 0"
    using assms by simp
  have diff: "(?d / w)\<^sup>2 - (sigma / w)\<^sup>2 = epsilon * (2 * sigma + epsilon) / w\<^sup>2"
    using assms(2) by (simp add: power2_eq_square field_simps)
  define h' where "h' = (\<lambda>b. if rhs = Ptr b then Some ((- mu + x) * (w * w / (?d * ?d)))
        else if b = a then Some (w * w / (?d * ?d))
        else if jacobian = Ptr b then Some (w / ?d)
        else if res = Ptr b then Some ((- mu + x) * (w / ?d)) else h b)"
  have cell: "h' a = Some ((w / ?d)\<^sup>2)"
    using assms(3) by (simp add: h'_def hes)
  have cov: "s_div (Some 1) (h' a) = Some ((?d / w)\<^sup>2)"
    using nz by (simp add: cell s_div_def inv)
  have cov0: "epsilon = 0 \<longrightarrow> s_div (Some 1) (h' a) = Some ((sigma / w)\<^sup>2)"
    using cov by simp
  show ?thesis
    using call cell cov diff cov0 unfolding h'_def [symmetric] by blast
qed

text \<open>
  C4, witness: the optimum of the single linear prior problem. The inverse of the hessian
  is ((1/2 + 1e-9) / 2)^2, within 1e-9 of 1/16 = 0.0625.
\<close>

theorem LandmarkPriorFactor_covariance_witness:
  "(1/2 :: real) + 1/10^9 \<noteq> 0 \<and> (2 :: real) \<noteq> 0 \<and> nullptr \<noteq> Ptr 0
   \<and> (\<exists>h'. LandmarkPriorFactor (Some 3) (Some 3) (Some 2) (Some (1/2)) (Some (1/10^9))
            nullptr nullptr (Ptr 0) nullptr heap0 = Inr h'
     \<and> h' 0 = Some ((2 / (1/2 + 1/10^9))^2)
     \<and> s_div (Some 1) (h' 0) = Some (((1/2 + 1/10^9) / 2)^2))
   \<and> ((1/2 + 1/10^9) / 2)^2 - ((1/2) / 2 :: real)^2 = (1/10^9) * (2 * (1/2) + 1/10^9) / 2^2
   \<and> \<bar>((1/2 + 1/10^9) / 2)^2 - (1/16 :: real)\<bar> < 1/10^9"
  using LandmarkPriorFactor_covariance [where sigma = "1/2" and epsilon = "1/10^9" and w = 2
      and x = 3 and mu = 3 and a = 0 and res = nullptr and jacobian = nullptr
      and rhs = nullptr and h = heap0]
  by (auto simp add: power2_eq_square)

section \<open>Jacobian and Hessian do not depend on the variable\<close>

text \<open>
  C9: two calls with the same weight, sigma and epsilon, whatever their landmarks, priors,
  memories and pointers, write the same jacobian and the same hessian (each read at its
  own call's pointer, which no later output of that call aliases): both are functions of
  weight, sigma and epsilon alone.
\<close>

theorem LandmarkPriorFactor_jacobian_hessian_constant:
  assumes "ja \<noteq> ka" and "rhs_a \<noteq> Ptr ja" and "rhs_a \<noteq> Ptr ka"
    and "jb \<noteq> kb" and "rhs_b \<noteq> Ptr jb" and "rhs_b \<noteq> Ptr kb"
  shows "\<exists>ha' hb'.
       LandmarkPriorFactor landmark_a prior_a weight sigma epsilon
         res_a (Ptr ja) (Ptr ka) rhs_a ha = Inr ha'
     \<and> LandmarkPriorFactor landmark_b prior_b weight sigma epsilon
         res_b (Ptr jb) (Ptr kb) rhs_b hb = Inr hb'
     \<and> ha' ja = hb' jb \<and> ha' ka = hb' kb
     \<and> ha' ja = s_div weight (s_add epsilon sigma)
     \<and> ha' ka = s_div (s_mul weight weight) (s_mul (s_add epsilon sigma) (s_add epsilon sigma))"
  using assms by (simp add: LandmarkPriorFactor_heap)

text \<open>
  C9, witness: the first iterate (x = 0) and another point (x = 10, with another prior
  too) of a problem with w = 2, sigma = 1/2, epsilon = 1e-9: the same jacobian and the
  same hessian.
\<close>

theorem LandmarkPriorFactor_jacobian_hessian_constant_witness:
  "(1 :: nat) \<noteq> 2 \<and> Ptr 3 \<noteq> Ptr 1 \<and> Ptr 3 \<noteq> Ptr 2
   \<and> (\<exists>ha' hb'.
       LandmarkPriorFactor (Some 0) (Some 3) (Some 2) (Some (1/2)) (Some (1/10^9))
         (Ptr 0) (Ptr 1) (Ptr 2) (Ptr 3) heap0 = Inr ha'
     \<and> LandmarkPriorFactor (Some 10) (Some (- 4)) (Some 2) (Some (1/2)) (Some (1/10^9))
         (Ptr 0) (Ptr 1) (Ptr 2) (Ptr 3) heap0 = Inr hb'
     \<and> ha' 1 = hb' 1 \<and> ha' 2 = hb' 2
     \<and> ha' 1 = Some (2000000000 / 500000001)
     \<and> ha' 2 = Some (4000000000000000000 / 250000001000000001)
     \<and> ha' 0 \<noteq> hb' 0)"
proof -
  have run_b: "LandmarkPriorFactor (Some 10) (Some (- 4)) (Some 2) (Some (1/2)) (Some (1/10^9))
         (Ptr 0) (Ptr 1) (Ptr 2) (Ptr 3) heap0 = Inr hb' \<Longrightarrow> hb' 0 = Some (28000000000 / 500000001)"
    for hb'
    by (auto simp add: LandmarkPriorFactor_heap s_defs)
  have run_a: "LandmarkPriorFactor (Some 0) (Some 3) (Some 2) (Some (1/2)) (Some (1/10^9))
         (Ptr 0) (Ptr 1) (Ptr 2) (Ptr 3) heap0 = Inr ha' \<Longrightarrow> ha' 0 = Some (- 6000000000 / 500000001)"
    for ha'
    by (auto simp add: LandmarkPriorFactor_heap s_defs)
  have inst: "\<exists>ha' hb'.
       LandmarkPriorFactor (Some 0) (Some 3) (Some 2) (Some (1/2)) (Some (1/10^9))
         (Ptr 0) (Ptr 1) (Ptr 2) (Ptr 3) heap0 = Inr ha'
     \<and> LandmarkPriorFactor (Some 10) (Some (- 4)) (Some 2) (Some (1/2)) (Some (1/10^9))
         (Ptr 0) (Ptr 1) (Ptr 2) (Ptr 3) heap0 = Inr hb'
     \<and> ha' 1 = hb' 1 \<and> ha' 2 = hb' 2
     \<and> ha' 1 = s_div (Some 2) (s_add (Some (1/10^9)) (Some (1/2)))
     \<and> ha' 2 = s_div (s_mul (Some 2) (Some 2))
         (s_mul (s_add (Some (1/10^9)) (Some (1/2))) (s_add (Some (1/10^9)) (Some (1/2))))"
    by (rule LandmarkPriorFactor_jacobian_hessian_constant) simp_all
  then obtain ha' hb' where
    a: "LandmarkPriorFactor (Some 0) (Some 3) (Some 2) (Some (1/2)) (Some (1/10^9))
         (Ptr 0) (Ptr 1) (Ptr 2) (Ptr 3) heap0 = Inr ha'"
    and b: "LandmarkPriorFactor (Some 10) (Some (- 4)) (Some 2) (Some (1/2)) (Some (1/10^9))
         (Ptr 0) (Ptr 1) (Ptr 2) (Ptr 3) heap0 = Inr hb'"
    and same: "ha' 1 = hb' 1" "ha' 2 = hb' 2"
    and jac: "ha' 1 = s_div (Some 2) (s_add (Some (1/10^9)) (Some (1/2)))"
    and hes: "ha' 2 = s_div (s_mul (Some 2) (Some 2))
         (s_mul (s_add (Some (1/10^9)) (Some (1/2))) (s_add (Some (1/10^9)) (Some (1/2))))"
    by blast
  have res: "ha' 0 \<noteq> hb' 0"
    using run_a [OF a] run_b [OF b] by simp
  have jac': "ha' 1 = Some (2000000000 / 500000001)"
    unfolding jac by (simp add: s_defs)
  have hes': "ha' 2 = Some (4000000000000000000 / 250000001000000001)"
    unfolding hes by (simp add: s_defs)
  have pre: "(1 :: nat) \<noteq> 2 \<and> Ptr 3 \<noteq> Ptr 1 \<and> Ptr 3 \<noteq> Ptr 2"
    by simp
  show ?thesis
    using pre a b same jac' hes' res by blast
qed

section \<open>Divisions of the prior factor\<close>

text \<open>
  The template: the memory it leaves, whether a division had a zero denominator, and its
  agreement with the exact embedding.
\<close>

lemma LandmarkPriorFactor_T_zero_division:
  "snd (LandmarkPriorFactor_T ops landmark inverse_range_prior weight sigma epsilon
          res jacobian hessian rhs h) \<longleftrightarrow>
     zero_op ops (add_op ops epsilon sigma)
     \<or> zero_op ops (mul_op ops (add_op ops epsilon sigma) (add_op ops epsilon sigma))"
  by (simp add: LandmarkPriorFactor_T_def divide_T_def Let_def)

lemma LandmarkPriorFactor_T_heap:
  "fst (LandmarkPriorFactor_T ops landmark inverse_range_prior weight sigma epsilon
          res jacobian hessian rhs h0) =
     Inr (\<lambda>a.
       if rhs = Ptr a then
         mul_op ops (add_op ops (neg_op ops inverse_range_prior) landmark)
           (div_op ops (mul_op ops weight weight)
              (mul_op ops (add_op ops epsilon sigma) (add_op ops epsilon sigma)))
       else if hessian = Ptr a then
         div_op ops (mul_op ops weight weight)
           (mul_op ops (add_op ops epsilon sigma) (add_op ops epsilon sigma))
       else if jacobian = Ptr a then div_op ops weight (add_op ops epsilon sigma)
       else if res = Ptr a then
         mul_op ops (add_op ops (neg_op ops inverse_range_prior) landmark)
           (div_op ops weight (add_op ops epsilon sigma))
       else h0 a)"
  by (cases res; cases jacobian; cases hessian; cases rhs)
     (auto simp add: LandmarkPriorFactor_T_def Let_def and_then_T_def assign_deref_T_def
        divide_T_def fun_eq_iff)

lemma exact_ops_sel:
  "neg_op exact_ops = s_neg" "add_op exact_ops = s_add" "mul_op exact_ops = s_mul"
  "div_op exact_ops = s_div" "zero_op exact_ops = (\<lambda>b. b = Some 0)"
  by (simp_all add: exact_ops_def)

lemma double_ops_sel:
  "neg_op double_ops = d_neg" "add_op double_ops = d_add" "mul_op double_ops = d_mul"
  "div_op double_ops = d_div" "zero_op double_ops = d_zero"
  by (simp_all add: double_ops_def)

lemma LandmarkPriorFactor_T_exact:
  "fst (LandmarkPriorFactor_T exact_ops landmark inverse_range_prior weight sigma epsilon
          res jacobian hessian rhs h) =
   LandmarkPriorFactor landmark inverse_range_prior weight sigma epsilon
          res jacobian hessian rhs h"
  unfolding LandmarkPriorFactor_T_heap LandmarkPriorFactor_heap exact_ops_sel by (rule refl)

text \<open>The exponent found by climbing.\<close>

lemma climb_ge: "e \<le> climb m e"
proof (induction m e rule: climb.induct)
  case (1 m e)
  then show ?case
    by (subst climb.simps) (auto split: if_splits)
qed

lemma climb_le: "e \<le> 1023 \<Longrightarrow> climb m e \<le> 1023"
proof (induction m e rule: climb.induct)
  case (1 m e)
  then show ?case
    by (subst climb.simps) (auto split: if_splits)
qed

lemma climb_lower: "climb m e \<noteq> e \<Longrightarrow> 2 powi (climb m e) \<le> m"
proof (induction m e rule: climb.induct)
  case (1 m e)
  show ?case
  proof (cases "e < 1023 \<and> 2 powi (e + 1) \<le> m")
    case True
    then have step: "climb m e = climb m (e + 1)"
      by (subst climb.simps) simp
    show ?thesis
    proof (cases "climb m (e + 1) = e + 1")
      case True
      with step \<open>e < 1023 \<and> 2 powi (e + 1) \<le> m\<close> show ?thesis by simp
    next
      case False
      with 1 True step show ?thesis by simp
    qed
  next
    case False
    then have "climb m e = e"
      by (subst climb.simps) auto
    with 1 show ?thesis by simp
  qed
qed

lemma climb_eqI:
  "e \<le> k \<Longrightarrow> k \<le> 1023 \<Longrightarrow> 2 powi k \<le> m \<Longrightarrow> (k < 1023 \<Longrightarrow> m < 2 powi (k + 1)) \<Longrightarrow>
   climb m e = k"
proof (induction m e rule: climb.induct)
  case (1 m e)
  show ?case
  proof (cases "e = k")
    case True
    then show ?thesis
      using 1 by (subst climb.simps) auto
  next
    case False
    then have lt: "e < k" using 1 by simp
    then have "(2::real) powi (e + 1) \<le> 2 powi k"
      by (intro power_int_increasing) simp_all
    then have go: "e < 1023 \<and> 2 powi (e + 1) \<le> m"
      using lt 1 by simp
    then have "climb m e = climb m (e + 1)"
      by (subst climb.simps) simp
    also have "\<dots> = k"
      using go lt 1 by simp
    finally show ?thesis .
  qed
qed

lemma rne_ge_floor: "\<lfloor>q\<rfloor> \<le> rne q"
  by (simp add: rne_def Let_def)

lemma rne_of_int: "rne (of_int n) = n"
  by (simp add: rne_def Let_def)


lemma binade_eqI:
  assumes "- 1022 \<le> k" and "k \<le> 1023" and "2 powi k \<le> m"
    and "k < 1023 \<Longrightarrow> m < 2 powi (k + 1)"
  shows "binade m = k"
  unfolding binade_def using assms by (intro climb_eqI) simp_all

lemma binade_small:
  assumes "m < 2 powi (- 1021)"
  shows "binade m = - 1022"
  unfolding binade_def using assms by (subst climb.simps) simp

lemma binade_lower:
  assumes "binade m \<noteq> - 1022"
  shows "2 powi (binade m) \<le> m"
  using assms climb_lower [of m "- 1022"] by (simp add: binade_def)

lemma rne_small: "0 \<le> q \<Longrightarrow> q < 1 / 2 \<Longrightarrow> rne q = 0"
proof -
  assume q: "0 \<le> q" "q < 1 / 2"
  then have "\<lfloor>q\<rfloor> = 0"
    by (intro floor_unique) simp_all
  then show ?thesis
    using q by (simp add: rne_def Let_def)
qed

lemma round64_eq:
  assumes "x \<noteq> 0" and "binade x = e" and "rne (x / 2 powi (e - 52)) = n"
    and "of_int n * 2 powi (e - 52) = r" and "r < 2 powi 1024"
  shows "round64 s x = Finite s r"
  using assms by (auto simp add: round64_def Let_def)

lemma round64_cases:
  assumes "x \<noteq> 0"
  shows "round64 s x = Infinity s \<or>
    round64 s x = Finite s (of_int (rne (x / 2 powi (binade x - 52))) * 2 powi (binade x - 52))"
  using assms by (simp add: round64_def Let_def)

lemma round64_power_of_two:
  assumes "- 1022 \<le> k" and "k \<le> 1023"
  shows "round64 s (2 powi k) = Finite s (2 powi k)"
proof (rule round64_eq)
  show "(2::real) powi k \<noteq> 0"
    by simp
  show "binade (2 powi k) = k"
    using assms by (intro binade_eqI) (simp_all add: power_int_strict_increasing)
  have "(2::real) powi k / 2 powi (k - 52) = of_int (2 ^ 52)"
    by (simp add: power_int_diff)
  then show "rne (2 powi k / 2 powi (k - 52)) = 2 ^ 52"
    by (simp only: rne_of_int)
  show "of_int (2 ^ 52) * 2 powi (k - 52) = (2::real) powi k"
    by (simp add: power_int_diff)
  show "(2::real) powi k < 2 powi 1024"
    using assms by (intro power_int_strict_increasing) simp_all
qed

lemma round64_underflow:
  assumes "0 < x" and "x < 2 powi (- 1075)"
  shows "round64 s x = Finite s 0"
proof (rule round64_eq)
  show "x \<noteq> 0"
    using assms by simp
  have "(2::real) powi (- 1075) \<le> 2 powi (- 1021)"
    by (intro power_int_increasing) simp_all
  then show "binade x = - 1022"
    using assms by (intro binade_small) simp
  define u :: real where "u = 2 powi (- 1022 - 52)"
  have u: "0 < u" "2 powi (- 1075) = u / 2"
    by (simp_all add: u_def)
  have "x / u < 1 / 2" "0 \<le> x / u"
    using assms u by (simp_all add: field_simps)
  then show "rne (x / 2 powi (- 1022 - 52)) = 0"
    unfolding u_def [symmetric] by (intro rne_small) simp_all
  show "of_int 0 * 2 powi (- 1022 - 52) = (0::real)"
    by simp
  show "(0::real) < 2 powi 1024"
    by simp
qed

lemma round64_not_zero:
  assumes "2 powi (- 1074) \<le> x"
  shows "\<not> d_zero (round64 s x)"
proof -
  have pos: "0 < x"
    using assms by (rule less_le_trans [rotated]) simp
  define u :: real where "u = 2 powi (binade x - 52)"
  have u: "0 < u"
    by (simp add: u_def)
  have "u \<le> x"
  proof (cases "binade x = - 1022")
    case True
    then show ?thesis using assms by (simp add: u_def)
  next
    case False
    have "u \<le> 2 powi (binade x)"
      unfolding u_def by (intro power_int_increasing) simp_all
    also have "\<dots> \<le> x"
      using False by (rule binade_lower)
    finally show ?thesis .
  qed
  then have "1 \<le> x / u"
    using u by (simp add: le_divide_eq)
  then have "1 \<le> \<lfloor>x / u\<rfloor>"
    by (simp add: le_floor_iff)
  then have "1 \<le> rne (x / u)"
    using rne_ge_floor [of "x / u"] by linarith
  then have "(1::real) \<le> of_int (rne (x / u))"
    by linarith
  then have nz: "of_int (rne (x / u)) * u \<noteq> 0"
    using u by simp
  have "round64 s x = Infinity s \<or> round64 s x = Finite s (of_int (rne (x / u)) * u)"
    unfolding u_def using pos by (intro round64_cases) simp
  then show ?thesis
    using nz by auto
qed

text \<open>
  Checks of the rounding against known values of \<^verbatim>\<open>double\<close>: 0.1 is
  3602879701896397 / 2^55, a tie goes to the even neighbour, and 2^1024 overflows.
\<close>

lemma round64_one_tenth:
  "round64 False (1 / 10) = Finite False (3602879701896397 / 2 ^ 55)"
proof (rule round64_eq)
  show "(1 / 10 :: real) \<noteq> 0"
    by simp
  show "binade (1 / 10) = - 4"
    by (intro binade_eqI) simp_all
  show "rne (1 / 10 / 2 powi (- 4 - 52)) = 7205759403792794"
    by (simp add: rne_def Let_def)
  show "of_int 7205759403792794 * 2 powi (- 4 - 52) = (3602879701896397 / 2 ^ 55 :: real)"
    by simp
  show "(3602879701896397 / 2 ^ 55 :: real) < 2 powi 1024"
    by simp
qed

lemma round64_tie_to_even:
  "round64 False (1 + 1 / 2 ^ 53) = Finite False 1"
  "round64 False (1 + 3 / 2 ^ 53) = Finite False (1 + 4 / 2 ^ 53)"
proof -
  show "round64 False (1 + 1 / 2 ^ 53) = Finite False 1"
  proof (rule round64_eq)
    show "(1 + 1 / 2 ^ 53 :: real) \<noteq> 0"
      by simp
    show "binade (1 + 1 / 2 ^ 53) = 0"
      by (intro binade_eqI) simp_all
    show "rne ((1 + 1 / 2 ^ 53) / 2 powi (0 - 52)) = 4503599627370496"
      by (simp add: rne_def Let_def)
    show "of_int 4503599627370496 * 2 powi (0 - 52) = (1 :: real)"
      by simp
    show "(1 :: real) < 2 powi 1024"
      by simp
  qed
  show "round64 False (1 + 3 / 2 ^ 53) = Finite False (1 + 4 / 2 ^ 53)"
  proof (rule round64_eq)
    show "(1 + 3 / 2 ^ 53 :: real) \<noteq> 0"
      by simp
    show "binade (1 + 3 / 2 ^ 53) = 0"
      by (intro binade_eqI) simp_all
    show "rne ((1 + 3 / 2 ^ 53) / 2 powi (0 - 52)) = 4503599627370498"
      by (simp add: rne_def Let_def)
    show "of_int 4503599627370498 * 2 powi (0 - 52) = (1 + 4 / 2 ^ 53 :: real)"
      by simp
    show "(1 + 4 / 2 ^ 53 :: real) < 2 powi 1024"
      by simp
  qed
qed

lemma round64_overflow:
  "round64 True (2 ^ 1024) = Infinity True"
proof -
  have b: "binade (2 ^ 1024) = 1023"
    by (intro binade_eqI) simp_all
  show ?thesis
    unfolding round64_def Let_def b by (simp add: rne_def Let_def)
qed


text \<open>
  C10, as stated, fails. The claim gives sigma + epsilon \<noteq> 0 as the precondition under which
  no division by zero occurs, and sigma = 0 as safe whenever epsilon > 0. In \<^verbatim>\<open>double\<close>,
  with sigma = 0, epsilon = 2^-540 and weight = 1: the computed sum is 2^-540, not zero;
  its computed square underflows to zero; the second division, of weight * weight by that
  square, has a zero denominator; and the hessian written is plus infinity.
\<close>

theorem LandmarkPriorFactor_division_safe_counterexample:
  "(0::real) + 2 powi (- 540) \<noteq> 0 \<and> (0::real) < 2 powi (- 540)
   \<and> d_add (Finite False (2 powi (- 540))) (Finite False 0) = Finite False (2 powi (- 540))
   \<and> d_mul (Finite False (2 powi (- 540))) (Finite False (2 powi (- 540))) = Finite False 0
   \<and> snd (LandmarkPriorFactor_T double_ops (Finite False 0) (Finite False 0) (Finite False 1)
        (Finite False 0) (Finite False (2 powi (- 540))) nullptr nullptr (Ptr 0) nullptr
        (all_cells NaN))
   \<and> fst (LandmarkPriorFactor_T double_ops (Finite False 0) (Finite False 0) (Finite False 1)
        (Finite False 0) (Finite False (2 powi (- 540))) nullptr nullptr (Ptr 0) nullptr
        (all_cells NaN)) = Inr ((all_cells NaN)(0 := Infinity False))"
proof -
  let ?e = "Finite False (2 powi (- 540))"
  have sum: "d_add ?e (Finite False 0) = ?e"
    using round64_power_of_two [of "- 540" False] by simp
  have "(2::real) powi (- 540) * 2 powi (- 540) = 2 powi (- 1080)"
    by (simp add: power_int_add [symmetric])
  moreover have "(2::real) powi (- 1080) < 2 powi (- 1075)"
    by (intro power_int_strict_increasing) simp_all
  ultimately have sq: "d_mul ?e ?e = Finite False 0"
    using round64_underflow [of "2 powi (- 1080)" False] by simp
  have one: "d_mul (Finite False 1) (Finite False 1) = Finite False 1"
    using round64_power_of_two [of 0 False] by simp
  have flag: "snd (LandmarkPriorFactor_T double_ops (Finite False 0) (Finite False 0) (Finite False 1)
        (Finite False 0) ?e nullptr nullptr (Ptr 0) nullptr (all_cells NaN))"
    unfolding LandmarkPriorFactor_T_zero_division double_ops_sel sum sq by simp
  have mem: "fst (LandmarkPriorFactor_T double_ops (Finite False 0) (Finite False 0) (Finite False 1)
        (Finite False 0) ?e nullptr nullptr (Ptr 0) nullptr (all_cells NaN)) =
      Inr ((all_cells NaN)(0 := Infinity False))"
    unfolding LandmarkPriorFactor_T_heap double_ops_sel sum sq one by (simp add: fun_eq_iff)
  have "(0::real) + 2 powi (- 540) \<noteq> 0" "(0::real) < 2 powi (- 540)"
    by simp_all
  then show ?thesis
    using sum sq flag mem by blast
qed

text \<open>
  C10, amended: every division of the factor has the denominator sigma + epsilon or its
  square, as computed in the scalar arithmetic, never sigma alone: whatever the arithmetic,
  a division by zero occurs exactly when one of these two computed values is a zero. In
  exact arithmetic that is the case exactly when sigma + epsilon = 0; otherwise the four
  outputs, written to four cells, are real numbers, in particular for sigma = 0 and a
  positive epsilon. In \<^verbatim>\<open>double\<close> no division by zero occurs unless the computed sum is
  a finite number of magnitude below 2^-537.
\<close>

theorem LandmarkPriorFactor_division_safe:
  "(snd (LandmarkPriorFactor_T ops landmark inverse_range_prior weight sigma epsilon
           res jacobian hessian rhs h) \<longleftrightarrow>
      zero_op ops (add_op ops epsilon sigma)
      \<or> zero_op ops (mul_op ops (add_op ops epsilon sigma) (add_op ops epsilon sigma)))
   \<and> (snd (LandmarkPriorFactor_T exact_ops (Some x) (Some mu) (Some w) (Some sg) (Some ep)
           res jacobian hessian rhs he) \<longleftrightarrow> sg + ep = 0)
   \<and> (distinct [a_res, a_jac, a_hes, a_rhs] \<longrightarrow>
        (\<exists>h'. LandmarkPriorFactor (Some x) (Some mu) (Some w) (Some sg) (Some ep)
                 (Ptr a_res) (Ptr a_jac) (Ptr a_hes) (Ptr a_rhs) he = Inr h'
          \<and> fst (LandmarkPriorFactor_T exact_ops (Some x) (Some mu) (Some w) (Some sg) (Some ep)
                 (Ptr a_res) (Ptr a_jac) (Ptr a_hes) (Ptr a_rhs) he) = Inr h'
          \<and> (sg + ep \<noteq> 0 \<longrightarrow>
                 h' a_res = Some ((x - mu) * (w / (sg + ep)))
               \<and> h' a_jac = Some (w / (sg + ep))
               \<and> h' a_hes = Some (w * w / ((sg + ep) * (sg + ep)))
               \<and> h' a_rhs = Some ((x - mu) * (w * w / ((sg + ep) * (sg + ep)))))
          \<and> (sg + ep = 0 \<longrightarrow>
                 h' a_res = None \<and> h' a_jac = None \<and> h' a_hes = None \<and> h' a_rhs = None)
          \<and> (sg = 0 \<and> 0 < ep \<longrightarrow>
                 h' a_res \<noteq> None \<and> h' a_jac \<noteq> None \<and> h' a_hes \<noteq> None
               \<and> h' a_rhs \<noteq> None)))
   \<and> ((\<forall>s m. d_add d_epsilon d_sigma = Finite s m \<longrightarrow> 2 powi (- 537) \<le> m) \<longrightarrow>
        \<not> snd (LandmarkPriorFactor_T double_ops d_landmark d_prior d_weight d_sigma d_epsilon
             res jacobian hessian rhs d_h))"
proof (intro conjI impI)
  show "snd (LandmarkPriorFactor_T ops landmark inverse_range_prior weight sigma epsilon
           res jacobian hessian rhs h) \<longleftrightarrow>
      zero_op ops (add_op ops epsilon sigma)
      \<or> zero_op ops (mul_op ops (add_op ops epsilon sigma) (add_op ops epsilon sigma))"
    by (rule LandmarkPriorFactor_T_zero_division)
next
  show "snd (LandmarkPriorFactor_T exact_ops (Some x) (Some mu) (Some w) (Some sg) (Some ep)
           res jacobian hessian rhs he) \<longleftrightarrow> sg + ep = 0"
    unfolding LandmarkPriorFactor_T_zero_division exact_ops_sel
    by (auto simp add: s_defs add.commute)
next
  assume "distinct [a_res, a_jac, a_hes, a_rhs]"
  then show "\<exists>h'. LandmarkPriorFactor (Some x) (Some mu) (Some w) (Some sg) (Some ep)
                 (Ptr a_res) (Ptr a_jac) (Ptr a_hes) (Ptr a_rhs) he = Inr h'
          \<and> fst (LandmarkPriorFactor_T exact_ops (Some x) (Some mu) (Some w) (Some sg) (Some ep)
                 (Ptr a_res) (Ptr a_jac) (Ptr a_hes) (Ptr a_rhs) he) = Inr h'
          \<and> (sg + ep \<noteq> 0 \<longrightarrow>
                 h' a_res = Some ((x - mu) * (w / (sg + ep)))
               \<and> h' a_jac = Some (w / (sg + ep))
               \<and> h' a_hes = Some (w * w / ((sg + ep) * (sg + ep)))
               \<and> h' a_rhs = Some ((x - mu) * (w * w / ((sg + ep) * (sg + ep)))))
          \<and> (sg + ep = 0 \<longrightarrow>
                 h' a_res = None \<and> h' a_jac = None \<and> h' a_hes = None \<and> h' a_rhs = None)
          \<and> (sg = 0 \<and> 0 < ep \<longrightarrow>
                 h' a_res \<noteq> None \<and> h' a_jac \<noteq> None \<and> h' a_hes \<noteq> None
               \<and> h' a_rhs \<noteq> None)"
    unfolding LandmarkPriorFactor_T_exact
    by (auto simp add: LandmarkPriorFactor_heap s_defs add.commute)
next
  assume big: "\<forall>s m. d_add d_epsilon d_sigma = Finite s m \<longrightarrow> 2 powi (- 537) \<le> m"
  let ?t = "d_add d_epsilon d_sigma"
  have "\<not> d_zero ?t \<and> \<not> d_zero (d_mul ?t ?t)"
  proof (cases ?t)
    case NaN
    then show ?thesis by simp
  next
    case (Infinity s)
    then show ?thesis by simp
  next
    case (Finite s m)
    then have m: "2 powi (- 537) \<le> m"
      using big by simp
    have pos: "(0::real) < 2 powi (- 537)"
      by simp
    then have "0 < m"
      using m by (rule less_le_trans)
    have "(2::real) powi (- 1074) = 2 powi (- 537) * 2 powi (- 537)"
      by (simp add: power_int_add [symmetric])
    also have "\<dots> \<le> m * m"
      using m pos by (intro mult_mono) simp_all
    finally have "\<not> d_zero (round64 False (m * m))"
      by (rule round64_not_zero)
    then show ?thesis
      using Finite \<open>0 < m\<close> by simp
  qed
  then show "\<not> snd (LandmarkPriorFactor_T double_ops d_landmark d_prior d_weight d_sigma
      d_epsilon res jacobian hessian rhs d_h)"
    unfolding LandmarkPriorFactor_T_zero_division double_ops_sel by simp
qed


text \<open>
  C10, witness: in exact arithmetic, sigma = 0 with epsilon = 1e-9 at x = 0, mu = 3, w = 2:
  no division by zero, and the four outputs are -6e9, 2e9, 4e18 and -12e18. In
  \<^verbatim>\<open>double\<close>, sigma = 0 with epsilon = 2^-537: the computed sum is 2^-537 and no division
  by zero occurs; with epsilon = 2^-540 the computed square is a zero and one does.
\<close>

theorem LandmarkPriorFactor_division_safe_witness:
  "distinct [0, 1, 2, 3 :: nat] \<and> (0 :: real) + 1/10^9 \<noteq> 0 \<and> (0 :: real) < 1/10^9
   \<and> \<not> snd (LandmarkPriorFactor_T exact_ops (Some 0) (Some 3) (Some 2) (Some 0)
          (Some (1/10^9)) (Ptr 0) (Ptr 1) (Ptr 2) (Ptr 3) heap0)
   \<and> (\<exists>h'. LandmarkPriorFactor (Some 0) (Some 3) (Some 2) (Some 0) (Some (1/10^9))
            (Ptr 0) (Ptr 1) (Ptr 2) (Ptr 3) heap0 = Inr h'
     \<and> h' 0 = Some (- 6000000000)
     \<and> h' 1 = Some 2000000000
     \<and> h' 2 = Some 4000000000000000000
     \<and> h' 3 = Some (- 12000000000000000000))
   \<and> d_add (Finite False (2 powi (- 537))) (Finite False 0) = Finite False (2 powi (- 537))
   \<and> \<not> snd (LandmarkPriorFactor_T double_ops (Finite False 0) (Finite False 3) (Finite False 2)
          (Finite False 0) (Finite False (2 powi (- 537))) (Ptr 0) (Ptr 1) (Ptr 2) (Ptr 3)
          (all_cells NaN))
   \<and> d_zero (d_mul (d_add (Finite False (2 powi (- 540))) (Finite False 0))
          (d_add (Finite False (2 powi (- 540))) (Finite False 0)))
   \<and> snd (LandmarkPriorFactor_T double_ops (Finite False 0) (Finite False 3) (Finite False 2)
          (Finite False 0) (Finite False (2 powi (- 540))) (Ptr 0) (Ptr 1) (Ptr 2) (Ptr 3)
          (all_cells NaN))"
proof -
  let ?small = "Finite False (2 powi (- 540))" and ?big = "Finite False (2 powi (- 537))"
  note T = LandmarkPriorFactor_division_safe [where ops = double_ops
      and landmark = "Finite False 0" and inverse_range_prior = "Finite False 3"
      and weight = "Finite False 2" and sigma = "Finite False 0" and epsilon = ?small
      and res = "Ptr 0" and jacobian = "Ptr 1" and hessian = "Ptr 2" and rhs = "Ptr 3"
      and h = "all_cells NaN"
      and x = 0 and mu = 3 and w = 2 and sg = 0 and ep = "1/10^9" and he = heap0
      and a_res = 0 and a_jac = 1 and a_hes = 2 and a_rhs = 3
      and d_landmark = "Finite False 0" and d_prior = "Finite False 3" and d_weight = "Finite False 2"
      and d_sigma = "Finite False 0" and d_epsilon = ?big and d_h = "all_cells NaN"]
  have pre: "distinct [0, 1, 2, 3 :: nat]" "(0 :: real) + 1/10^9 \<noteq> 0" "(0 :: real) < 1/10^9"
    by simp_all
  have sum_small: "d_add ?small (Finite False 0) = ?small"
    using round64_power_of_two [of "- 540" False] by simp
  have "(2::real) powi (- 540) * 2 powi (- 540) = 2 powi (- 1080)"
    by (simp add: power_int_add [symmetric])
  moreover have "(2::real) powi (- 1080) < 2 powi (- 1075)"
    by (intro power_int_strict_increasing) simp_all
  ultimately have sq: "d_mul ?small ?small = Finite False 0"
    using round64_underflow [of "2 powi (- 1080)" False] by simp
  have zero: "d_zero (d_mul (d_add ?small (Finite False 0)) (d_add ?small (Finite False 0)))"
    unfolding sum_small sq by simp
  have sum_big: "d_add ?big (Finite False 0) = ?big"
    using round64_power_of_two [of "- 537" False] by simp
  have flag_small: "snd (LandmarkPriorFactor_T double_ops (Finite False 0) (Finite False 3)
      (Finite False 2) (Finite False 0) ?small (Ptr 0) (Ptr 1) (Ptr 2) (Ptr 3) (all_cells NaN))"
    using T [THEN conjunct1] zero unfolding double_ops_sel by blast
  have exact_flag: "\<not> snd (LandmarkPriorFactor_T exact_ops (Some 0) (Some 3) (Some 2)
      (Some 0) (Some (1/10^9)) (Ptr 0) (Ptr 1) (Ptr 2) (Ptr 3) heap0)"
    using T [THEN conjunct2, THEN conjunct1] pre(2) by blast
  have exact_out: "\<exists>h'. LandmarkPriorFactor (Some 0) (Some 3) (Some 2) (Some 0)
      (Some (1/10^9)) (Ptr 0) (Ptr 1) (Ptr 2) (Ptr 3) heap0 = Inr h'
     \<and> h' 0 = Some (- 6000000000)
     \<and> h' 1 = Some 2000000000
     \<and> h' 2 = Some 4000000000000000000
     \<and> h' 3 = Some (- 12000000000000000000)"
    using T [THEN conjunct2, THEN conjunct2, THEN conjunct1] by auto
  have "\<forall>s m. d_add ?big (Finite False 0) = Finite s m \<longrightarrow> 2 powi (- 537) \<le> m"
    unfolding sum_big by simp
  then have flag_big: "\<not> snd (LandmarkPriorFactor_T double_ops (Finite False 0) (Finite False 3)
      (Finite False 2) (Finite False 0) ?big (Ptr 0) (Ptr 1) (Ptr 2) (Ptr 3) (all_cells NaN))"
    using T [THEN conjunct2, THEN conjunct2, THEN conjunct2] by blast
  show ?thesis
    using pre exact_flag exact_out sum_big flag_big zero flag_small by blast
qed

section \<open>The return value of \<^verbatim>\<open>Optimize\<close>\<close>

text \<open>The driver never exits while still iterating.\<close>

lemma IterateToConvergence_exit:
  "snd (IterateToConvergence Iterate s n) \<noteq> ITERATING"
  by (induction n arbitrary: s) (auto split: prod.splits)

lemma Optimize_exit_status:
  "exit_status (Optimize params_iterations Iterate values num_iterations) =
     snd (IterateToConvergence Iterate values
            (if num_iterations < 0 then params_iterations else nat num_iterations))"
  by (simp add: Optimize_def Let_def split: prod.splits)

lemma Optimize_returned:
  "returned (Optimize params_iterations Iterate values num_iterations) \<longleftrightarrow>
     snd (IterateToConvergence Iterate values
            (if num_iterations < 0 then params_iterations else nat num_iterations)) = CONVERGED"
  by (simp add: Optimize_def Let_def split: prod.splits)

text \<open>
  C5: for every values, solver and iteration budget (the params' when \<open>num_iterations\<close> is
  negative), \<open>Optimize\<close> returns true if and only if the driver's run exits in CONVERGED; the
  exit status it records is the driver's, never ITERATING, and an exit in MAX_ITERATIONS,
  DIVERGED or NUMERICAL_FAILURE gives false.
\<close>

theorem Optimize_true_iff_converged:
  "(returned (Optimize params_iterations Iterate values num_iterations) \<longleftrightarrow>
      snd (IterateToConvergence Iterate values
             (if num_iterations < 0 then params_iterations else nat num_iterations)) = CONVERGED)
   \<and> exit_status (Optimize params_iterations Iterate values num_iterations) =
      snd (IterateToConvergence Iterate values
             (if num_iterations < 0 then params_iterations else nat num_iterations))
   \<and> exit_status (Optimize params_iterations Iterate values num_iterations) \<noteq> ITERATING
   \<and> (exit_status (Optimize params_iterations Iterate values num_iterations)
         \<in> {MAX_ITERATIONS, DIVERGED, NUMERICAL_FAILURE} \<longrightarrow>
       \<not> returned (Optimize params_iterations Iterate values num_iterations))"
  using IterateToConvergence_exit [of Iterate "values"]
  by (auto simp add: Optimize_returned Optimize_exit_status)

text \<open>
  C5, witness: a solver that converges in its third iteration. With the params' 50
  iterations the call returns true after three steps; with a budget of 2 it exits in
  MAX_ITERATIONS and returns false; a solver that diverges in its second iteration gives
  false too.
\<close>

theorem Optimize_true_iff_converged_witness:
  "returned (Optimize 50 (\<lambda>s :: nat. (Suc s, if s = 2 then CONVERGED else ITERATING)) 0 (- 1))
   \<and> exit_status (Optimize 50 (\<lambda>s :: nat. (Suc s, if s = 2 then CONVERGED else ITERATING)) 0 (- 1))
       = CONVERGED
   \<and> values_out (Optimize 50 (\<lambda>s :: nat. (Suc s, if s = 2 then CONVERGED else ITERATING)) 0 (- 1))
       = 3
   \<and> exit_status (Optimize 50 (\<lambda>s :: nat. (Suc s, if s = 2 then CONVERGED else ITERATING)) 0 2)
       = MAX_ITERATIONS
   \<and> \<not> returned (Optimize 50 (\<lambda>s :: nat. (Suc s, if s = 2 then CONVERGED else ITERATING)) 0 2)
   \<and> exit_status (Optimize 50 (\<lambda>s :: nat. (Suc s, if s = 1 then DIVERGED else ITERATING)) 0 (- 1))
       = DIVERGED
   \<and> \<not> returned (Optimize 50 (\<lambda>s :: nat. (Suc s, if s = 1 then DIVERGED else ITERATING)) 0 (- 1))"
proof -
  let ?I = "\<lambda>s :: nat. (Suc s, if s = 2 then CONVERGED else ITERATING)"
  let ?D = "\<lambda>s :: nat. (Suc s, if s = 1 then DIVERGED else ITERATING)"
  have run_a: "IterateToConvergence ?I 0 (if (- 1 :: int) < 0 then 50 else nat (- 1)) =
      (3, CONVERGED)"
    by (simp add: eval_nat_numeral)
  have run_b: "IterateToConvergence ?I 0 (if (2 :: int) < 0 then 50 else nat 2) =
      (2, MAX_ITERATIONS)"
    by (simp add: eval_nat_numeral)
  have run_c: "IterateToConvergence ?D 0 (if (- 1 :: int) < 0 then 50 else nat (- 1)) =
      (2, DIVERGED)"
    by (simp add: eval_nat_numeral)
  have out_a: "values_out (Optimize 50 ?I 0 (- 1)) = 3"
    unfolding Optimize_def Let_def run_a by simp
  have a: "returned (Optimize 50 ?I 0 (- 1))"
      "exit_status (Optimize 50 ?I 0 (- 1)) = CONVERGED"
    using Optimize_true_iff_converged [of 50 ?I 0 "- 1"] unfolding run_a by simp_all
  have b: "exit_status (Optimize 50 ?I 0 2) = MAX_ITERATIONS"
      "\<not> returned (Optimize 50 ?I 0 2)"
    using Optimize_true_iff_converged [of 50 ?I 0 2] unfolding run_b by simp_all
  have c: "exit_status (Optimize 50 ?D 0 (- 1)) = DIVERGED"
      "\<not> returned (Optimize 50 ?D 0 (- 1))"
    using Optimize_true_iff_converged [of 50 ?D 0 "- 1"] unfolding run_c by simp_all
  show ?thesis
    using a b c out_a by blast
qed

section \<open>The covariance blocks of \<^verbatim>\<open>ComputeCovariances\<close>\<close>

text \<open>Writing the blocks of a list of entries into the map of covariances.\<close>

lemma fold_update_other:
  "k \<notin> key ` set es \<Longrightarrow> fold (\<lambda>e out. out(key e \<mapsto> f e)) es c k = c k"
  by (induction es arbitrary: c) auto

lemma fold_update_nth:
  "distinct (map key es) \<Longrightarrow> i < length es \<Longrightarrow>
   fold (\<lambda>e out. out(key e \<mapsto> f e)) es c (key (es ! i)) = Some (f (es ! i))"
proof (induction es arbitrary: c i)
  case Nil
  then show ?case by simp
next
  case (Cons e es)
  show ?case
  proof (cases i)
    case 0
    have "key e \<notin> key ` set es"
      using Cons.prems(1) by auto
    then have "fold (\<lambda>e out. out(key e \<mapsto> f e)) es (c(key e \<mapsto> f e)) (key e) =
        (c(key e \<mapsto> f e)) (key e)"
      by (rule fold_update_other)
    also have "\<dots> = Some (f e)"
      by simp
    finally show ?thesis
      using 0 by (simp del: fun_upd_apply)
  next
    case (Suc n)
    then show ?thesis
      using Cons by simp
  qed
qed

text \<open>The inverse of a 1x1 and of a 2x2 matrix, as a check of \<open>mat_inverse\<close>.\<close>

lemma mat_inverse_1: "a \<noteq> 0 \<Longrightarrow> mat_inverse [[a]] = Some [[1 / a]]"
  by (simp add: mat_inverse_def entries_def remove_nth_def)

lemma mat_inverse_2:
  "a * d - b * c \<noteq> 0 \<Longrightarrow>
   mat_inverse [[a, b], [c, d]] =
     Some [[d / (a * d - b * c), - b / (a * d - b * c)],
           [- c / (a * d - b * c), a / (a * d - b * c)]]"
  by (simp add: mat_inverse_def entries_def remove_nth_def eval_nat_numeral)

lemma mat_inverse_2_inverts:
  assumes "mat_inverse [[a, b], [c, d]] = Some N"
  shows "mat_mul 2 2 2 [[a, b], [c, d]] N = [[1, 0], [0, 1]]"
    and "mat_mul 2 2 2 N [[a, b], [c, d]] = [[1, 0], [0, 1]]"
proof -
  have nz: "a * d - b * c \<noteq> 0"
    using assms
    by (auto simp add: mat_inverse_def entries_def remove_nth_def eval_nat_numeral
        split: if_splits)
  then have N: "N = [[d / (a * d - b * c), - b / (a * d - b * c)],
           [- c / (a * d - b * c), a / (a * d - b * c)]]"
    using assms by (simp add: mat_inverse_2)
  have l: "a * d / (a * d - b * c) - b * c / (a * d - b * c) = 1"
    using nz by (simp add: diff_divide_distrib [symmetric])
  have r: "d * a / (a * d - b * c) - b * c / (a * d - b * c) = 1"
    using nz by (simp add: diff_divide_distrib [symmetric] mult.commute)
  show "mat_mul 2 2 2 [[a, b], [c, d]] N = [[1, 0], [0, 1]]"
    using l r by (simp add: N mat_mul_def entries_def eval_nat_numeral mult.commute)
  show "mat_mul 2 2 2 N [[a, b], [c, d]] = [[1, 0], [0, 1]]"
    using l r by (simp add: N mat_mul_def entries_def eval_nat_numeral mult.commute)
qed

lemma fold_update_dom:
  "dom (fold (\<lambda>e out. out(key e \<mapsto> f e)) es c) = dom c \<union> key ` set es"
  by (induction es arbitrary: c) auto

text \<open>
  C6: a call of \<open>ComputeCovariances\<close> succeeds only if \<open>keys\<close> is a prefix of the ordered
  keys of the index. Under that precondition (with distinct keys, and C and the Schur
  complement S = B - E C^{-1} E^T invertible) it succeeds, and the entry of each requested
  key is the block of that key on the diagonal of the inverse of S; entries of other keys
  are left as they were, and the result holds exactly the requested keys when the map
  passed in held no other.
\<close>

theorem ComputeCovariances_schur_blocks:
  "((\<exists>out. ComputeCovariances index H keys covariances_by_key = Inr out) \<longrightarrow>
      (\<exists>rest. map key index = keys @ rest))
   \<and> (let block_dim = sum_list (map tangent_dim (take (length keys) index));
           rest_dim = length H - block_dim
       in (\<exists>rest. map key index = keys @ rest) \<and> distinct keys
          \<and> mat_inverse (block H block_dim block_dim rest_dim rest_dim) = Some C_inv
          \<and> mat_inverse (schur_complement H block_dim rest_dim C_inv) = Some S_inv \<longrightarrow>
          (\<exists>out. ComputeCovariances index H keys covariances_by_key = Inr out
             \<and> (\<forall>i < length keys. out (keys ! i) = Some (key_block S_inv (index ! i)))
             \<and> (\<forall>k. k \<notin> set keys \<longrightarrow> out k = covariances_by_key k)
             \<and> (dom covariances_by_key \<subseteq> set keys \<longrightarrow> dom out = set keys)))"
proof (intro conjI impI)
  assume "\<exists>out. ComputeCovariances index H keys covariances_by_key = Inr out"
  then have "take (length keys) (map key index) = keys"
    by (auto simp add: ComputeCovariances_def split: if_splits)
  then have "map key index = keys @ drop (length keys) (map key index)"
    by (metis append_take_drop_id)
  then show "\<exists>rest. map key index = keys @ rest" ..
next
  define block_dim where "block_dim = sum_list (map tangent_dim (take (length keys) index))"
  define rest_dim where "rest_dim = length H - block_dim"
  define requested where "requested = take (length keys) index"
  show "let block_dim = sum_list (map tangent_dim (take (length keys) index));
           rest_dim = length H - block_dim
       in (\<exists>rest. map key index = keys @ rest) \<and> distinct keys
          \<and> mat_inverse (block H block_dim block_dim rest_dim rest_dim) = Some C_inv
          \<and> mat_inverse (schur_complement H block_dim rest_dim C_inv) = Some S_inv \<longrightarrow>
          (\<exists>out. ComputeCovariances index H keys covariances_by_key = Inr out
             \<and> (\<forall>i < length keys. out (keys ! i) = Some (key_block S_inv (index ! i)))
             \<and> (\<forall>k. k \<notin> set keys \<longrightarrow> out k = covariances_by_key k)
             \<and> (dom covariances_by_key \<subseteq> set keys \<longrightarrow> dom out = set keys))"
    unfolding Let_def block_dim_def [symmetric] rest_dim_def [symmetric]
  proof (intro impI, elim conjE exE)
    fix rest
    assume pre: "map key index = keys @ rest" and dist: "distinct keys"
      and C: "mat_inverse (block H block_dim block_dim rest_dim rest_dim) = Some C_inv"
      and S: "mat_inverse (schur_complement H block_dim rest_dim C_inv) = Some S_inv"
    have keys: "map key requested = keys"
      unfolding requested_def take_map [symmetric] using pre by simp
    have len: "length requested = length keys"
      using keys by (metis length_map)
    let ?out = "fold (\<lambda>e out. out(key e \<mapsto> key_block S_inv e)) requested covariances_by_key"
    have run: "ComputeCovariances index H keys covariances_by_key = Inr ?out"
      using keys C S
      by (simp add: ComputeCovariances_def Let_def requested_def block_dim_def rest_dim_def
          take_map)
    have blocks: "?out (keys ! i) = Some (key_block S_inv (index ! i))" if "i < length keys" for i
    proof -
      have "?out (key (requested ! i)) = Some (key_block S_inv (requested ! i))"
        using dist keys len that by (intro fold_update_nth) simp_all
      moreover have "key (requested ! i) = keys ! i"
        using keys len that by (metis nth_map)
      moreover have "requested ! i = index ! i"
        using that by (simp add: requested_def)
      ultimately show ?thesis by simp
    qed
    have frame: "?out k = covariances_by_key k" if "k \<notin> set keys" for k
    proof -
      have "k \<notin> key ` set requested"
        using that keys by (metis set_map)
      then show ?thesis by (rule fold_update_other)
    qed
    have "dom ?out = dom covariances_by_key \<union> set keys"
      using keys by (metis fold_update_dom set_map)
    then have exact: "dom covariances_by_key \<subseteq> set keys \<longrightarrow> dom ?out = set keys"
      by blast
    show "\<exists>out. ComputeCovariances index H keys covariances_by_key = Inr out
             \<and> (\<forall>i < length keys. out (keys ! i) = Some (key_block S_inv (index ! i)))
             \<and> (\<forall>k. k \<notin> set keys \<longrightarrow> out k = covariances_by_key k)
             \<and> (dom covariances_by_key \<subseteq> set keys \<longrightarrow> dom out = set keys)"
      using run blocks frame exact by blast
  qed
qed

text \<open>
  C6, witness: three keys of tangent dimension 1 and the Hessian
  [[4, 1, 2], [1, 3, 0], [2, 0, 2]]; the first two keys are requested. C = [[2]],
  S = [[2, 1], [1, 3]], and the covariances 3/5 and 2/5 are the diagonal of the inverse
  of S, which are also the first two diagonal coefficients of the inverse of the whole
  Hessian.
\<close>

theorem ComputeCovariances_schur_blocks_witness:
  "(\<exists>rest.
      map key
        [\<lparr>key = Key CHR ''x'' 0 None, storage_offset = 0, storage_dim = 1,
           tangent_offset = 0, tangent_dim = 1\<rparr>,
         \<lparr>key = Key CHR ''x'' 1 None, storage_offset = 1, storage_dim = 1,
           tangent_offset = 1, tangent_dim = 1\<rparr>,
         \<lparr>key = Key CHR ''l'' 0 None, storage_offset = 2, storage_dim = 1,
           tangent_offset = 2, tangent_dim = 1\<rparr>] =
      [Key CHR ''x'' 0 None, Key CHR ''x'' 1 None] @ rest)
   \<and> distinct [Key CHR ''x'' 0 None, Key CHR ''x'' 1 None]
   \<and> mat_inverse (block [[4, 1, 2], [1, 3, 0], [2, 0, 2]] 2 2 1 1) = Some [[1 / 2]]
   \<and> mat_inverse (schur_complement [[4, 1, 2], [1, 3, 0], [2, 0, 2]] 2 1 [[1 / 2]]) =
       Some [[3 / 5, - 1 / 5], [- 1 / 5, 2 / 5]]
   \<and> (\<exists>out.
        ComputeCovariances
          [\<lparr>key = Key CHR ''x'' 0 None, storage_offset = 0, storage_dim = 1,
             tangent_offset = 0, tangent_dim = 1\<rparr>,
           \<lparr>key = Key CHR ''x'' 1 None, storage_offset = 1, storage_dim = 1,
             tangent_offset = 1, tangent_dim = 1\<rparr>,
           \<lparr>key = Key CHR ''l'' 0 None, storage_offset = 2, storage_dim = 1,
             tangent_offset = 2, tangent_dim = 1\<rparr>]
          [[4, 1, 2], [1, 3, 0], [2, 0, 2]]
          [Key CHR ''x'' 0 None, Key CHR ''x'' 1 None] Map.empty = Inr out
      \<and> out (Key CHR ''x'' 0 None) = Some [[3 / 5]]
      \<and> out (Key CHR ''x'' 1 None) = Some [[2 / 5]]
      \<and> out (Key CHR ''l'' 0 None) = None
      \<and> dom out = {Key CHR ''x'' 0 None, Key CHR ''x'' 1 None})
   \<and> mat_inverse [[4, 1, 2], [1, 3, 0], [2, 0, 2]] =
       Some [[3 / 5, - 1 / 5, - 3 / 5], [- 1 / 5, 2 / 5, 1 / 5], [- 3 / 5, 1 / 5, 11 / 10]]"
proof -
  let ?x0 = "Key CHR ''x'' 0 None" and ?x1 = "Key CHR ''x'' 1 None"
    and ?l0 = "Key CHR ''l'' 0 None"
  let ?index =
    "[\<lparr>key = ?x0, storage_offset = 0, storage_dim = 1, tangent_offset = 0, tangent_dim = 1\<rparr>,
      \<lparr>key = ?x1, storage_offset = 1, storage_dim = 1, tangent_offset = 1, tangent_dim = 1\<rparr>,
      \<lparr>key = ?l0, storage_offset = 2, storage_dim = 1, tangent_offset = 2, tangent_dim = 1\<rparr>]"
  let ?H = "[[4, 1, 2], [1, 3, 0], [2, 0, 2 :: real]]"
  let ?S_inv = "[[3 / 5, - 1 / 5], [- 1 / 5, 2 / 5 :: real]]"
  have pre: "\<exists>rest. map key ?index = [?x0, ?x1] @ rest"
    by simp
  have dist: "distinct [?x0, ?x1]"
    by simp
  have dims: "sum_list (map tangent_dim (take (length [?x0, ?x1]) ?index)) = 2"
      "length ?H - 2 = 1"
    by simp_all
  have C: "mat_inverse (block ?H 2 2 1 1) = Some [[1 / 2]]"
    by (simp add: block_def entries_def mat_inverse_def remove_nth_def eval_nat_numeral)
  have S: "schur_complement ?H 2 1 [[1 / 2]] = [[2, 1], [1, 3]]"
    by (simp add: schur_complement_def block_def entries_def mat_sub_def mat_mul_def
        mat_transpose_def eval_nat_numeral)
  have S_inv: "mat_inverse (schur_complement ?H 2 1 [[1 / 2]]) = Some ?S_inv"
    unfolding S by (simp add: mat_inverse_def entries_def remove_nth_def eval_nat_numeral)
  have full: "mat_inverse ?H =
      Some [[3 / 5, - 1 / 5, - 3 / 5], [- 1 / 5, 2 / 5, 1 / 5], [- 3 / 5, 1 / 5, 11 / 10]]"
    by (simp add: mat_inverse_def entries_def remove_nth_def eval_nat_numeral)
  have "\<exists>out. ComputeCovariances ?index ?H [?x0, ?x1] Map.empty = Inr out
      \<and> (\<forall>i < length [?x0, ?x1]. out ([?x0, ?x1] ! i) = Some (key_block ?S_inv (?index ! i)))
      \<and> (\<forall>k. k \<notin> set [?x0, ?x1] \<longrightarrow> out k = Map.empty k)
      \<and> (dom (Map.empty :: Key \<rightharpoonup> matrix) \<subseteq> set [?x0, ?x1] \<longrightarrow> dom out = set [?x0, ?x1])"
    using ComputeCovariances_schur_blocks [of ?index ?H "[?x0, ?x1]" Map.empty "[[1 / 2]]" ?S_inv]
      pre dist C S_inv
    unfolding Let_def dims by blast
  then obtain out where
    run: "ComputeCovariances ?index ?H [?x0, ?x1] Map.empty = Inr out"
    and blocks: "\<forall>i < length [?x0, ?x1]. out ([?x0, ?x1] ! i) = Some (key_block ?S_inv (?index ! i))"
    and frame: "\<forall>k. k \<notin> set [?x0, ?x1] \<longrightarrow> out k = Map.empty k"
    and exact: "dom (Map.empty :: Key \<rightharpoonup> matrix) \<subseteq> set [?x0, ?x1] \<longrightarrow> dom out = set [?x0, ?x1]"
    by blast
  have "out ([?x0, ?x1] ! 0) = Some (key_block ?S_inv (?index ! 0))"
    using blocks [rule_format, of 0] by simp
  then have b0: "out ?x0 = Some [[3 / 5]]"
    by (simp add: key_block_def block_def entries_def)
  have "out ([?x0, ?x1] ! 1) = Some (key_block ?S_inv (?index ! 1))"
    using blocks [rule_format, of 1] by simp
  then have b1: "out ?x1 = Some [[2 / 5]]"
    by (simp add: key_block_def block_def entries_def)
  have b2: "out ?l0 = None"
    using frame [rule_format, of ?l0] by simp
  have d: "dom out = {?x0, ?x1}"
    using exact by simp
  show ?thesis
    using pre dist C S_inv run b0 b1 b2 d full by blast
qed

end
